theory Spec2Isabelle
  imports Complex_Main
begin

section \<open>Customer support analytics dashboard (Visualization/app1.py)\<close>

text \<open>
  The script loads a CSV of support tickets into a table, filters it by channel, issue type
  and creation date, shows four summary metrics, compares the satisfaction scores of two
  channels with Welch's t-test and lists the tickets whose resolution time exceeds a
  threshold. A table is modelled as the list of its rows in file order, a column as the list
  of the values of one field, and the column operations of the script (\<open>isin\<close>, \<open>&\<close>,
  comparison with a scalar, boolean indexing) as functions on such lists.
\<close>

subsection \<open>Numeric cells\<close>

text \<open>
  A numeric cell is a double: not-a-number (which is also how a missing numeric value is
  stored), one of the two infinities, or a finite value. Finite values are taken as the real
  numbers they denote; rounding and the sign of zero are not modelled. The operations are the
  IEEE ones on these four cases; a zero divisor is taken as positive zero.
\<close>

datatype pyfloat = NaN | NInf | Fin real | PInf

fun f_neg :: "pyfloat \<Rightarrow> pyfloat" where
  "f_neg NaN = NaN"
| "f_neg NInf = PInf"
| "f_neg PInf = NInf"
| "f_neg (Fin x) = Fin (- x)"

fun f_abs :: "pyfloat \<Rightarrow> pyfloat" where
  "f_abs NaN = NaN"
| "f_abs NInf = PInf"
| "f_abs PInf = PInf"
| "f_abs (Fin x) = Fin \<bar>x\<bar>"

fun f_add :: "pyfloat \<Rightarrow> pyfloat \<Rightarrow> pyfloat" where
  "f_add NaN _ = NaN"
| "f_add _ NaN = NaN"
| "f_add PInf NInf = NaN"
| "f_add NInf PInf = NaN"
| "f_add PInf _ = PInf"
| "f_add _ PInf = PInf"
| "f_add NInf _ = NInf"
| "f_add _ NInf = NInf"
| "f_add (Fin x) (Fin y) = Fin (x + y)"

definition f_sub :: "pyfloat \<Rightarrow> pyfloat \<Rightarrow> pyfloat" where
  "f_sub a b = f_add a (f_neg b)"

text \<open>The sign of a product or quotient with an infinite operand.\<close>

definition signed_inf :: "bool \<Rightarrow> pyfloat" where
  "signed_inf positive = (if positive then PInf else NInf)"

fun f_mul :: "pyfloat \<Rightarrow> pyfloat \<Rightarrow> pyfloat" where
  "f_mul NaN _ = NaN"
| "f_mul _ NaN = NaN"
| "f_mul (Fin x) (Fin y) = Fin (x * y)"
| "f_mul (Fin x) PInf = (if x = 0 then NaN else signed_inf (0 < x))"
| "f_mul (Fin x) NInf = (if x = 0 then NaN else signed_inf (x < 0))"
| "f_mul PInf (Fin y) = (if y = 0 then NaN else signed_inf (0 < y))"
| "f_mul NInf (Fin y) = (if y = 0 then NaN else signed_inf (y < 0))"
| "f_mul PInf PInf = PInf"
| "f_mul NInf NInf = PInf"
| "f_mul PInf NInf = NInf"
| "f_mul NInf PInf = NInf"

fun f_div :: "pyfloat \<Rightarrow> pyfloat \<Rightarrow> pyfloat" where
  "f_div NaN _ = NaN"
| "f_div _ NaN = NaN"
| "f_div (Fin x) (Fin y) =
     (if y = 0 then (if x = 0 then NaN else signed_inf (0 < x)) else Fin (x / y))"
| "f_div (Fin x) PInf = Fin 0"
| "f_div (Fin x) NInf = Fin 0"
| "f_div PInf (Fin y) = signed_inf (0 \<le> y)"
| "f_div NInf (Fin y) = signed_inf (y < 0)"
| "f_div PInf PInf = NaN"
| "f_div NInf NInf = NaN"
| "f_div PInf NInf = NaN"
| "f_div NInf PInf = NaN"

fun f_sqrt :: "pyfloat \<Rightarrow> pyfloat" where
  "f_sqrt NaN = NaN"
| "f_sqrt NInf = NaN"
| "f_sqrt PInf = PInf"
| "f_sqrt (Fin x) = (if x < 0 then NaN else Fin (sqrt x))"

text \<open>Comparisons: every ordered comparison with not-a-number is false.\<close>

fun f_lt :: "pyfloat \<Rightarrow> pyfloat \<Rightarrow> bool" where
  "f_lt NaN _ = False"
| "f_lt _ NaN = False"
| "f_lt PInf _ = False"
| "f_lt _ NInf = False"
| "f_lt NInf _ = True"
| "f_lt _ PInf = True"
| "f_lt (Fin x) (Fin y) = (x < y)"

definition f_gt :: "pyfloat \<Rightarrow> pyfloat \<Rightarrow> bool" where
  "f_gt a b = f_lt b a"

definition f_sum :: "pyfloat list \<Rightarrow> pyfloat" where
  "f_sum xs = foldl f_add (Fin 0) xs"

subsection \<open>Tickets, timestamps and tables\<close>

text \<open>
  A timestamp is a count of nanoseconds since the epoch, as the table library stores it; a
  calendar date is a day number, ordered as dates are. \<open>date_of\<close> is the \<open>.date\<close> of a
  timestamp. A missing timestamp (NaT) or a missing categorical value is \<open>None\<close>.
\<close>

type_synonym timestamp = int
type_synonym date = int

definition ns_per_day :: int where
  "ns_per_day = 86400 * 1000000000"

definition date_of :: "timestamp \<Rightarrow> date" where
  "date_of ts = ts div ns_per_day"

record 'c row =
  Ticket_ID :: string
  Created_At :: 'c
  Channel :: "string option"
  Issue_Type :: "string option"
  Response_Time_Minutes :: pyfloat
  Resolution_Time_Minutes :: pyfloat
  CSAT_Score :: pyfloat
  CSAT_Binary :: pyfloat

text \<open>A row as read from the file has the text of its timestamp; a loaded row has it parsed.\<close>

type_synonym raw_ticket = "string option row"
type_synonym ticket = "timestamp option row"

datatype error = IndexError | LoadError

subsection \<open>Loading\<close>

text \<open>
  \<open>df["Created_At"] = ...\<close>: the column is replaced, position by position, and every other
  column is kept.
\<close>

definition set_Created_At :: "'a row \<Rightarrow> 'b \<Rightarrow> 'b row" where
  "set_Created_At r v =
     \<lparr>Ticket_ID = Ticket_ID r, Created_At = v, Channel = Channel r,
      Issue_Type = Issue_Type r, Response_Time_Minutes = Response_Time_Minutes r,
      Resolution_Time_Minutes = Resolution_Time_Minutes r, CSAT_Score = CSAT_Score r,
      CSAT_Binary = CSAT_Binary r\<rparr>"

definition assign_Created_At :: "'a row list \<Rightarrow> 'b list \<Rightarrow> 'b row list" where
  "assign_Created_At df col = map2 set_Created_At df col"

text \<open>
  Modelled from the spec: \<open>pd.to_datetime(col, errors="coerce")\<close> is the table library's;
  a value that fails to parse becomes missing rather than raising. The parser of one value is
  a parameter; it answers \<open>None\<close> for a text it cannot read. A missing text stays missing.
\<close>

definition to_datetime_coerce :: "(string \<Rightarrow> timestamp option) \<Rightarrow> string option list \<Rightarrow> timestamp option list" where
  "to_datetime_coerce parse col = map (\<lambda>c. case c of None \<Rightarrow> None | Some s \<Rightarrow> parse s) col"

text \<open>
  \<open>load_data\<close>: \<open>read_csv\<close> is the library's reader, a parameter that gives the rows of the
  file or fails; its failure is passed on.
\<close>

definition load_data :: "('f \<Rightarrow> error + raw_ticket list) \<Rightarrow> (string \<Rightarrow> timestamp option) \<Rightarrow> 'f \<Rightarrow> error + ticket list" where
  "load_data read_csv parse filename =
     (case read_csv filename of
        Inl e \<Rightarrow> Inl e
      | Inr df \<Rightarrow> Inr (assign_Created_At df (to_datetime_coerce parse (map Created_At df))))"

subsection \<open>Column operations\<close>

definition isin :: "string option list \<Rightarrow> string list \<Rightarrow> bool list" where
  "isin col vals = map (\<lambda>c. case c of None \<Rightarrow> False | Some s \<Rightarrow> s \<in> set vals) col"

definition eq_scalar :: "string option list \<Rightarrow> string \<Rightarrow> bool list" where
  "eq_scalar col s = map (\<lambda>c. c = Some s) col"

definition series_and :: "bool list \<Rightarrow> bool list \<Rightarrow> bool list" where
  "series_and xs ys = map2 (\<and>) xs ys"

definition dt_date :: "timestamp option list \<Rightarrow> date option list" where
  "dt_date col = map (map_option date_of) col"

definition ge_date :: "date option list \<Rightarrow> date \<Rightarrow> bool list" where
  "ge_date col d = map (\<lambda>c. case c of None \<Rightarrow> False | Some x \<Rightarrow> d \<le> x) col"

definition le_date :: "date option list \<Rightarrow> date \<Rightarrow> bool list" where
  "le_date col d = map (\<lambda>c. case c of None \<Rightarrow> False | Some x \<Rightarrow> x \<le> d) col"

definition gt_scalar :: "pyfloat list \<Rightarrow> int \<Rightarrow> bool list" where
  "gt_scalar col t = map (\<lambda>x. f_gt x (Fin (of_int t))) col"

text \<open>\<open>df[mask]\<close>: the rows at the positions where the mask is true, in order.\<close>

definition boolean_index :: "'a list \<Rightarrow> bool list \<Rightarrow> 'a list" where
  "boolean_index df m = map fst (filter snd (zip df m))"

text \<open>Indexing a tuple: out of range raises.\<close>

definition tuple_get :: "'a list \<Rightarrow> nat \<Rightarrow> error + 'a" where
  "tuple_get xs i = (if i < length xs then Inr (xs ! i) else Inl IndexError)"

subsection \<open>Filtering\<close>

text \<open>
  \<open>mask\<close> and \<open>df_f\<close>. \<open>date_range\<close> is the tuple the date widget returns; the script reads
  its first two components.
\<close>

definition mask :: "ticket list \<Rightarrow> string list \<Rightarrow> string list \<Rightarrow> date list \<Rightarrow> error + bool list" where
  "mask df channel_filter issue_filter date_range =
     (case tuple_get date_range 0 of
        Inl e \<Rightarrow> Inl e
      | Inr d0 \<Rightarrow>
          (case tuple_get date_range 1 of
             Inl e \<Rightarrow> Inl e
           | Inr d1 \<Rightarrow>
               Inr (series_and
                     (series_and
                       (series_and (isin (map Channel df) channel_filter)
                                   (isin (map Issue_Type df) issue_filter))
                       (ge_date (dt_date (map Created_At df)) d0))
                     (le_date (dt_date (map Created_At df)) d1))))"

definition df_f :: "ticket list \<Rightarrow> string list \<Rightarrow> string list \<Rightarrow> date list \<Rightarrow> error + ticket list" where
  "df_f df channel_filter issue_filter date_range =
     (case mask df channel_filter issue_filter date_range of
        Inl e \<Rightarrow> Inl e
      | Inr m \<Rightarrow> Inr (boolean_index df m))"

subsection \<open>Summary metrics\<close>

text \<open>
  Modelled from the spec: \<open>Series.mean()\<close> is the table library's and is not part of the
  repository; it leaves the missing values out and is not-a-number when nothing is left.
  The script prints each metric through a fixed-point format, which writes not-a-number as the
  text \<open>nan\<close>; the values are modelled, not their text.
\<close>

definition notna :: "pyfloat \<Rightarrow> bool" where
  "notna x = (x \<noteq> NaN)"

definition series_mean :: "pyfloat list \<Rightarrow> pyfloat" where
  "series_mean xs =
     (let vs = filter notna xs
      in if length vs = 0 then NaN else f_div (f_sum vs) (Fin (real (length vs))))"

text \<open>
  Modelled from the spec: \<open>groupby(key).size()\<close> is the table library's; it has one entry
  for each distinct key that is not missing, in key order, with the number of rows that have it.
\<close>

definition groupby_size :: "date option list \<Rightarrow> (date \<times> nat) list" where
  "groupby_size keys =
     map (\<lambda>k. (k, count_list keys (Some k)))
         (remdups (sort (concat (map (\<lambda>c. case c of None \<Rightarrow> [] | Some k \<Rightarrow> [k]) keys))))"

record metrics =
  avg_csat :: pyfloat
  avg_resolution_time :: pyfloat
  tickets_per_day :: pyfloat
  happy_rate :: pyfloat

definition compute_metrics :: "ticket list \<Rightarrow> metrics" where
  "compute_metrics d =
     \<lparr>avg_csat = series_mean (map CSAT_Score d),
      avg_resolution_time = series_mean (map Resolution_Time_Minutes d),
      tickets_per_day =
        series_mean (map (\<lambda>g. Fin (real (snd g))) (groupby_size (dt_date (map Created_At d)))),
      happy_rate = f_mul (series_mean (map CSAT_Binary d)) (Fin 100)\<rparr>"

subsection \<open>Welch's t-test\<close>

text \<open>
  Modelled from the spec: \<open>scipy.stats.ttest_ind(a, b, equal_var=False)\<close> is the statistics
  library's and is not part of the repository. The statistic is the difference of the sample
  means divided by the standard error computed from each group's variance and size, the
  degrees of freedom are the Welch-Satterthwaite approximation, and the p-value is the
  two-sided one of Student's t distribution. The survival function \<open>sf df x\<close> of that
  distribution has no closed form and is a parameter. As in the library, undefined degrees of
  freedom are replaced by 1, the sample variance divides by \<open>max (n - 1) 0\<close>, and missing
  values are not left out.
\<close>

text \<open>Modelled from the spec: the sample mean of the library's test (missing values kept).\<close>

definition np_mean :: "pyfloat list \<Rightarrow> pyfloat" where
  "np_mean xs = f_div (f_sum xs) (Fin (real (length xs)))"

text \<open>Modelled from the spec: the sample variance of the library's test, with divisor \<open>n - 1\<close>.\<close>

definition np_var :: "pyfloat list \<Rightarrow> pyfloat" where
  "np_var xs =
     (let m = np_mean xs
      in f_div (f_sum (map (\<lambda>x. f_mul (f_sub x m) (f_sub x m)) xs))
               (Fin (real (length xs - 1))))"

text \<open>
  Modelled from the spec: the Welch-Satterthwaite degrees of freedom and the standard error
  of the difference of the means, from the variances and sizes of the two groups.
\<close>

definition unequal_var_ttest_denom :: "pyfloat \<Rightarrow> pyfloat \<Rightarrow> pyfloat \<Rightarrow> pyfloat \<Rightarrow> pyfloat \<times> pyfloat" where
  "unequal_var_ttest_denom v1 n1 v2 n2 =
     (let vn1 = f_div v1 n1;
          vn2 = f_div v2 n2;
          df = f_div (f_mul (f_add vn1 vn2) (f_add vn1 vn2))
                     (f_add (f_div (f_mul vn1 vn1) (f_sub n1 (Fin 1)))
                            (f_div (f_mul vn2 vn2) (f_sub n2 (Fin 1))));
          df' = (if df = NaN then Fin 1 else df);
          denom = f_sqrt (f_add vn1 vn2)
      in (df', denom))"

text \<open>
  Modelled from the spec: the two-sided p-value, twice the survival function at the absolute
  value of the statistic; it is zero at an infinite statistic and undefined at an undefined one.
\<close>

definition two_sided_p :: "(real \<Rightarrow> real \<Rightarrow> real) \<Rightarrow> pyfloat \<Rightarrow> pyfloat \<Rightarrow> pyfloat" where
  "two_sided_p sf df t =
     (case df of
        Fin d \<Rightarrow>
          (case f_abs t of
             Fin x \<Rightarrow> Fin (2 * sf d x)
           | PInf \<Rightarrow> Fin 0
           | _ \<Rightarrow> NaN)
      | _ \<Rightarrow> NaN)"

text \<open>Modelled from the spec: the library's \<open>ttest_ind\<close> with \<open>equal_var=False\<close>.\<close>

definition ttest_ind :: "(real \<Rightarrow> real \<Rightarrow> real) \<Rightarrow> pyfloat list \<Rightarrow> pyfloat list \<Rightarrow> pyfloat \<times> pyfloat" where
  "ttest_ind sf a b =
     (let (df, denom) =
            unequal_var_ttest_denom (np_var a) (Fin (real (length a)))
                                    (np_var b) (Fin (real (length b)));
          t = f_div (f_sub (np_mean a) (np_mean b)) denom
      in (t, two_sided_p sf df t))"

subsection \<open>A/B comparison of two channels\<close>

datatype verdict = Significant | NotSignificant

record comparison =
  size_a :: nat
  size_b :: nat
  mean_a :: pyfloat
  mean_b :: pyfloat
  t_stat :: pyfloat
  p_val :: pyfloat
  outcome :: verdict

datatype ab_result = NotEnoughData | Tested comparison

text \<open>
  The threshold of the verdict is the literal 0.05. A p-value is a double, and a double is
  below the double nearest to 0.05 exactly when it is below 0.05.
\<close>

definition significance :: "pyfloat \<Rightarrow> verdict" where
  "significance p = (if f_lt p (Fin (5 / 100)) then Significant else NotSignificant)"

text \<open>
  The second tab, for two group labels; the script has them fixed (\<open>compare_groups\<close> below).
\<close>

definition ab_test :: "(real \<Rightarrow> real \<Rightarrow> real) \<Rightarrow> string \<Rightarrow> string \<Rightarrow> ticket list \<Rightarrow> ab_result" where
  "ab_test sf label_a label_b d =
     (let ab_df = boolean_index d (isin (map Channel d) [label_a, label_b])
      in if length ab_df < 2 then NotEnoughData
         else
           (let chatbot = map CSAT_Score (boolean_index ab_df (eq_scalar (map Channel ab_df) label_a));
                agent = map CSAT_Score (boolean_index ab_df (eq_scalar (map Channel ab_df) label_b));
                (t, p) = ttest_ind sf chatbot agent
            in Tested \<lparr>size_a = length chatbot, size_b = length agent,
                       mean_a = series_mean chatbot, mean_b = series_mean agent,
                       t_stat = t, p_val = p, outcome = significance p\<rparr>))"

definition compare_groups :: "(real \<Rightarrow> real \<Rightarrow> real) \<Rightarrow> ticket list \<Rightarrow> ab_result" where
  "compare_groups sf d = ab_test sf ''Chatbot'' ''Live Agent'' d"

subsection \<open>Threshold scan\<close>

type_synonym anomaly_row =
  "string \<times> timestamp option \<times> string option \<times> string option \<times> pyfloat \<times> pyfloat \<times> pyfloat"

definition project :: "ticket \<Rightarrow> anomaly_row" where
  "project r =
     (Ticket_ID r, Created_At r, Channel r, Issue_Type r,
      Response_Time_Minutes r, Resolution_Time_Minutes r, CSAT_Score r)"

definition anomalies :: "ticket list \<Rightarrow> int \<Rightarrow> ticket list" where
  "anomalies d threshold = boolean_index d (gt_scalar (map Resolution_Time_Minutes d) threshold)"

datatype anomaly_display = Dataframe "anomaly_row list" | NoTicketsInfo

text \<open>The third tab: the count written out, and the table or the note shown under it.\<close>

definition scan_threshold :: "ticket list \<Rightarrow> int \<Rightarrow> nat \<times> anomaly_display" where
  "scan_threshold d threshold =
     (let a = anomalies d threshold
      in (length a,
          if a \<noteq> [] then Dataframe (take 20 (map project a)) else NoTicketsInfo))"

definition shown_rows :: "anomaly_display \<Rightarrow> anomaly_row list" where
  "shown_rows v = (case v of Dataframe rs \<Rightarrow> rs | NoTicketsInfo \<Rightarrow> [])"

subsection \<open>The properties in the words of the specification\<close>

text \<open>The row predicate of a filter specification: both memberships and the date interval.\<close>

definition row_included :: "string list \<Rightarrow> string list \<Rightarrow> date \<Rightarrow> date \<Rightarrow> ticket \<Rightarrow> bool" where
  "row_included cs is lo hi r \<longleftrightarrow>
     (\<exists>c. Channel r = Some c \<and> c \<in> set cs) \<and>
     (\<exists>i. Issue_Type r = Some i \<and> i \<in> set is) \<and>
     (\<exists>ts. Created_At r = Some ts \<and> lo \<le> date_of ts \<and> date_of ts \<le> hi)"

text \<open>A row belongs to one of the two groups; the scores of one group.\<close>

definition in_groups :: "string \<Rightarrow> string \<Rightarrow> ticket \<Rightarrow> bool" where
  "in_groups a b r \<longleftrightarrow> Channel r = Some a \<or> Channel r = Some b"

definition group_scores :: "string \<Rightarrow> ticket list \<Rightarrow> pyfloat list" where
  "group_scores a d = map CSAT_Score (filter (\<lambda>r. Channel r = Some a) d)"

text \<open>A resolution time is strictly greater than the threshold.\<close>

definition exceeds :: "pyfloat \<Rightarrow> int \<Rightarrow> bool" where
  "exceeds x t \<longleftrightarrow> x = PInf \<or> (\<exists>v. x = Fin v \<and> real_of_int t < v)"

subsection \<open>Example data\<close>

definition example_ticket :: "string \<Rightarrow> timestamp option \<Rightarrow> string \<Rightarrow> string \<Rightarrow> pyfloat \<Rightarrow> pyfloat \<Rightarrow> ticket" where
  "example_ticket tid ts ch it res score =
     \<lparr>Ticket_ID = tid, Created_At = ts, Channel = Some ch, Issue_Type = Some it,
      Response_Time_Minutes = Fin 5, Resolution_Time_Minutes = res, CSAT_Score = score,
      CSAT_Binary = Fin 1\<rparr>"

text \<open>
  Day 10 at 01:00, the last nanosecond of day 10, midnight of day 11, a missing timestamp
  with a missing resolution time, and two tickets of other channels and days.
\<close>

definition t1 :: ticket where
  "t1 = example_ticket ''T1'' (Some (10 * ns_per_day + 3600000000000)) ''Chatbot'' ''Billing'' (Fin 200) (Fin 5)"

definition t2 :: ticket where
  "t2 = example_ticket ''T2'' (Some (11 * ns_per_day - 1)) ''Live Agent'' ''Billing'' (Fin 181) (Fin 1)"

definition t3 :: ticket where
  "t3 = example_ticket ''T3'' (Some (11 * ns_per_day)) ''Chatbot'' ''Billing'' (Fin 180) (Fin 3)"

definition t4 :: ticket where
  "t4 = example_ticket ''T4'' None ''Chatbot'' ''Billing'' NaN (Fin 4)"

definition t5 :: ticket where
  "t5 = example_ticket ''T5'' (Some (10 * ns_per_day)) ''Email'' ''Refund'' (Fin 100) (Fin 2)"

definition t6 :: ticket where
  "t6 = example_ticket ''T6'' (Some (12 * ns_per_day)) ''Live Agent'' ''Refund'' (Fin 60) (Fin 1)"

definition raw_ticket_of :: "string \<Rightarrow> string option \<Rightarrow> raw_ticket" where
  "raw_ticket_of tid txt =
     \<lparr>Ticket_ID = tid, Created_At = txt, Channel = Some ''Chatbot'', Issue_Type = Some ''Billing'',
      Response_Time_Minutes = Fin 5, Resolution_Time_Minutes = Fin 200, CSAT_Score = Fin 5,
      CSAT_Binary = Fin 1\<rparr>"

definition example_parse :: "string \<Rightarrow> timestamp option" where
  "example_parse s =
     (if s = ''1970-01-11 01:00:00'' then Some (10 * ns_per_day + 3600000000000) else None)"

definition example_read_csv :: "string \<Rightarrow> error + raw_ticket list" where
  "example_read_csv f =
     (if f = ''tickets.csv''
      then Inr [raw_ticket_of ''T1'' (Some ''1970-01-11 01:00:00''),
                raw_ticket_of ''T2'' (Some ''not a date''),
                raw_ticket_of ''T3'' None]
      else Inl LoadError)"

section \<open>Properties\<close>

lemmas example_defs = example_ticket_def t1_def t2_def t3_def t4_def t5_def t6_def

subsection \<open>Columns of a table\<close>

lemma boolean_index_map: "boolean_index d (map P d) = filter P d"
  by (induction d) (simp_all add: boolean_index_def)

lemma series_and_map: "series_and (map P d) (map Q d) = map (\<lambda>r. P r \<and> Q r) d"
  by (induction d) (simp_all add: series_and_def)

lemma isin_col: "isin (map f d) vals = map (\<lambda>r. \<exists>s. f r = Some s \<and> s \<in> set vals) d"
  by (auto simp: isin_def split: option.splits)

lemma isin_pair:
  "isin (map Channel d) [a, b] = map (\<lambda>r. Channel r = Some a \<or> Channel r = Some b) d"
  by (auto simp: isin_def split: option.splits)

lemma eq_scalar_col: "eq_scalar (map f d) s = map (\<lambda>r. f r = Some s) d"
  by (simp add: eq_scalar_def)

lemma ge_date_col:
  "ge_date (dt_date (map f d)) lo = map (\<lambda>r. \<exists>ts. f r = Some ts \<and> lo \<le> date_of ts) d"
  by (auto simp: ge_date_def dt_date_def split: option.splits)

lemma le_date_col:
  "le_date (dt_date (map f d)) hi = map (\<lambda>r. \<exists>ts. f r = Some ts \<and> date_of ts \<le> hi) d"
  by (auto simp: le_date_def dt_date_def split: option.splits)

subsection \<open>Filtering\<close>

lemma mask_pair: "mask df cs is (lo # hi # rest) = Inr (map (row_included cs is lo hi) df)"
  unfolding mask_def tuple_get_def isin_col ge_date_col le_date_col series_and_map
  by (auto simp: row_included_def)

lemma mask_short: "length dr < 2 \<Longrightarrow> mask df cs is dr = Inl IndexError"
  by (cases dr; cases "tl dr") (auto simp: mask_def tuple_get_def)

lemma df_f_pair: "df_f df cs is (lo # hi # rest) = Inr (filter (row_included cs is lo hi) df)"
  by (simp add: df_f_def mask_pair boolean_index_map)

text \<open>The dates from \<open>lo\<close> to \<open>hi\<close> are the instants from the start of day \<open>lo\<close> to the end of day \<open>hi\<close>.\<close>

lemma date_of_range:
  "lo \<le> date_of ts \<and> date_of ts \<le> hi \<longleftrightarrow> lo * ns_per_day \<le> ts \<and> ts < (hi + 1) * ns_per_day"
proof -
  define q where "q = ts div ns_per_day"
  define m where "m = ts mod ns_per_day"
  have n: "0 < ns_per_day" by (simp add: ns_per_day_def)
  have ts: "ts = q * ns_per_day + m" by (simp add: q_def m_def)
  have m: "0 \<le> m" "m < ns_per_day" using n by (simp_all add: m_def)
  have a: "lo \<le> q \<longleftrightarrow> lo * ns_per_day \<le> ts"
  proof
    assume "lo \<le> q"
    then have "lo * ns_per_day \<le> q * ns_per_day" using n by (simp add: mult_right_mono)
    then show "lo * ns_per_day \<le> ts" using ts m by linarith
  next
    assume h: "lo * ns_per_day \<le> ts"
    show "lo \<le> q"
    proof (rule ccontr)
      assume "\<not> lo \<le> q"
      then have "q + 1 \<le> lo" by simp
      then have "(q + 1) * ns_per_day \<le> lo * ns_per_day"
        using n by (simp only: mult_right_mono less_imp_le)
      moreover have "(q + 1) * ns_per_day = q * ns_per_day + ns_per_day"
        by (simp add: algebra_simps)
      ultimately show False using h ts m by linarith
    qed
  qed
  have b: "q \<le> hi \<longleftrightarrow> ts < (hi + 1) * ns_per_day"
  proof
    assume "q \<le> hi"
    then have "q * ns_per_day \<le> hi * ns_per_day" using n by (simp add: mult_right_mono)
    moreover have "(hi + 1) * ns_per_day = hi * ns_per_day + ns_per_day"
      by (simp add: algebra_simps)
    ultimately show "ts < (hi + 1) * ns_per_day" using ts m by linarith
  next
    assume h: "ts < (hi + 1) * ns_per_day"
    show "q \<le> hi"
    proof (rule ccontr)
      assume "\<not> q \<le> hi"
      then have "hi + 1 \<le> q" by simp
      then have "(hi + 1) * ns_per_day \<le> q * ns_per_day"
        using n by (simp only: mult_right_mono less_imp_le)
      then show False using h ts m by linarith
    qed
  qed
  show ?thesis using a b by (simp add: date_of_def q_def)
qed

text \<open>
  C1. With the channel list, the issue-type list and the date pair \<open>(lo, hi)\<close>, the filtered
  table is the rows of the table, in order, whose channel is in the channel list, whose issue
  type is in the issue-type list and whose creation date, the time of day dropped, lies between
  \<open>lo\<close> and \<open>hi\<close> inclusive; a row is in it exactly when it is such a row of the table, and
  no row with a missing creation timestamp is in it.
\<close>

theorem filter_rows_iff:
  "\<exists>sub. df_f df cs is [lo, hi] = Inr sub
        \<and> sub = filter (row_included cs is lo hi) df
        \<and> (\<forall>r. r \<in> set sub \<longleftrightarrow> r \<in> set df \<and> row_included cs is lo hi r)
        \<and> (\<forall>r \<in> set df. Created_At r = None \<longrightarrow> r \<notin> set sub)
        \<and> (\<forall>ts. lo \<le> date_of ts \<and> date_of ts \<le> hi
                  \<longleftrightarrow> lo * ns_per_day \<le> ts \<and> ts < (hi + 1) * ns_per_day)"
  using date_of_range[of lo _ hi] by (auto simp: df_f_pair row_included_def)

theorem filter_rows_iff_witness:
  "df_f [t1, t2, t3, t4, t5] [''Chatbot'', ''Live Agent''] [''Billing''] [10, 10] = Inr [t1, t2]
   \<and> t4 \<in> set [t1, t2, t3, t4, t5] \<and> Created_At t4 = None \<and> t4 \<notin> set [t1, t2]"
  using filter_rows_iff[of "[t1, t2, t3, t4, t5]" "[''Chatbot'', ''Live Agent'']" "[''Billing'']" 10 10]
  by (simp add: df_f_pair row_included_def example_defs date_of_def ns_per_day_def)

text \<open>
  C7. Filtering is idempotent: filtering the filtered table again with the same channel list,
  issue-type list and date pair gives the same table.
\<close>

theorem filter_idempotent:
  "\<exists>sub. df_f df cs is [lo, hi] = Inr sub \<and> df_f sub cs is [lo, hi] = Inr sub"
  by (simp add: df_f_pair)

theorem filter_idempotent_witness:
  "df_f [t1, t2, t3, t4, t5] [''Chatbot'', ''Live Agent''] [''Billing''] [10, 10] = Inr [t1, t2]
   \<and> df_f [t1, t2] [''Chatbot'', ''Live Agent''] [''Billing''] [10, 10] = Inr [t1, t2]"
  using filter_idempotent[of "[t1, t2, t3, t4, t5]" "[''Chatbot'', ''Live Agent'']" "[''Billing'']" 10 10]
  by (simp add: df_f_pair row_included_def example_defs date_of_def ns_per_day_def)

subsection \<open>Arithmetic on numeric cells\<close>

lemma f_add_NaN_right [simp]: "f_add x NaN = NaN"
  by (cases x) simp_all

lemma f_div_NaN_right [simp]: "f_div x NaN = NaN"
  by (cases x) simp_all

lemma f_sub_NaN [simp]: "f_sub NaN x = NaN" "f_sub x NaN = NaN"
  by (simp_all add: f_sub_def)

lemma f_add_commute: "f_add x y = f_add y x"
  by (cases x; cases y) simp_all

lemma f_neg_neg [simp]: "f_neg (f_neg x) = x"
  by (cases x) simp_all

lemma f_neg_add: "f_neg (f_add x y) = f_add (f_neg x) (f_neg y)"
  by (cases x; cases y) simp_all

lemma f_sub_swap: "f_sub y x = f_neg (f_sub x y)"
  by (simp add: f_sub_def f_neg_add f_add_commute)

lemma f_div_neg: "f_div (f_neg x) y = f_neg (f_div x y)"
  by (cases x; cases y) (auto simp: signed_inf_def)

lemma f_abs_neg [simp]: "f_abs (f_neg x) = f_abs x"
  by (cases x) simp_all

subsection \<open>The t-test\<close>

lemma two_sided_p_neg: "two_sided_p sf df (f_neg t) = two_sided_p sf df t"
  by (cases df) (simp_all add: two_sided_p_def)

lemma two_sided_p_NaN [simp]: "two_sided_p sf df NaN = NaN"
  by (simp add: two_sided_p_def split: pyfloat.splits)

lemma denom_swap: "unequal_var_ttest_denom v2 n2 v1 n1 = unequal_var_ttest_denom v1 n1 v2 n2"
  by (simp add: unequal_var_ttest_denom_def Let_def f_add_commute)

lemma ttest_ind_swap:
  "ttest_ind sf b a = (f_neg (fst (ttest_ind sf a b)), snd (ttest_ind sf a b))"
  unfolding ttest_ind_def denom_swap[of "np_var b" _ "np_var a"]
  by (simp add: Let_def f_sub_swap[of "np_mean b" "np_mean a"] f_div_neg two_sided_p_neg
        split: prod.splits)

lemma np_mean_Nil [simp]: "np_mean [] = NaN"
  by (simp add: np_mean_def f_sum_def)

lemma ttest_ind_empty_left: "ttest_ind sf [] b = (NaN, NaN)"
  by (simp add: ttest_ind_def Let_def split: prod.splits)

lemma ttest_ind_empty_right: "ttest_ind sf a [] = (NaN, NaN)"
  by (simp add: ttest_ind_def Let_def split: prod.splits)

lemma np_var_single: "np_var [Fin x] = NaN"
  by (simp add: np_var_def np_mean_def f_sum_def f_sub_def)

lemma np_var_53: "np_var [Fin 5, Fin 3] = Fin 2"
  by (simp add: np_var_def np_mean_def f_sum_def f_sub_def)

lemma np_var_11: "np_var [Fin 1, Fin 1] = Fin 0"
  by (simp add: np_var_def np_mean_def f_sum_def f_sub_def)

subsection \<open>The comparison\<close>

lemma group_of_ab:
  "map CSAT_Score (boolean_index (filter (in_groups a b) d)
                    (eq_scalar (map Channel (filter (in_groups a b) d)) a))
   = group_scores a d"
  "map CSAT_Score (boolean_index (filter (in_groups a b) d)
                    (eq_scalar (map Channel (filter (in_groups a b) d)) b))
   = group_scores b d"
  unfolding eq_scalar_col boolean_index_map group_scores_def
  by (simp_all add: in_groups_def cong: conj_cong) (metis+)

text \<open>The second tab in closed form: the guard on the combined size, then the test on the two groups.\<close>

lemma ab_test_eq:
  "ab_test sf a b d =
     (if length (filter (in_groups a b) d) < 2 then NotEnoughData
      else Tested \<lparr>size_a = length (group_scores a d), size_b = length (group_scores b d),
                   mean_a = series_mean (group_scores a d), mean_b = series_mean (group_scores b d),
                   t_stat = fst (ttest_ind sf (group_scores a d) (group_scores b d)),
                   p_val = snd (ttest_ind sf (group_scores a d) (group_scores b d)),
                   outcome = significance (snd (ttest_ind sf (group_scores a d) (group_scores b d)))\<rparr>)"
  unfolding ab_test_def isin_pair boolean_index_map in_groups_def[symmetric, abs_def]
  by (simp add: Let_def group_of_ab split: prod.splits)

text \<open>Two Chatbot scores 5 and 3 against two Live Agent scores 1 and 1, with a constant survival function.\<close>

lemma compare_example:
  "compare_groups (\<lambda>d x. q) [t1, t2, t3, t6] =
     Tested \<lparr>size_a = 2, size_b = 2, mean_a = Fin 4, mean_b = Fin 1, t_stat = Fin 3,
             p_val = Fin (2 * q), outcome = significance (Fin (2 * q))\<rparr>"
  by (simp add: compare_groups_def ab_test_eq in_groups_def group_scores_def example_defs
        ttest_ind_def np_var_53 np_var_11 unequal_var_ttest_denom_def Let_def np_mean_def f_sum_def
        f_sub_def two_sided_p_def series_mean_def notna_def)

text \<open>One Chatbot score and one Live Agent score: the variances are undefined.\<close>

lemma compare_example_pair:
  "compare_groups sf [t1, t5, t2] =
     Tested \<lparr>size_a = 1, size_b = 1, mean_a = Fin 5, mean_b = Fin 1, t_stat = NaN,
             p_val = NaN, outcome = NotSignificant\<rparr>"
  by (simp add: compare_groups_def ab_test_eq in_groups_def group_scores_def example_defs
        ttest_ind_def np_var_single unequal_var_ttest_denom_def Let_def
        series_mean_def notna_def f_sum_def significance_def)

text \<open>
  C2. When fewer than two rows of the filtered table have one of the two channel labels, the
  comparison reports that there is not enough data and no test is run; when two or more have,
  also exactly two, the comparison runs Welch's t-test on the scores of the two groups.
\<close>

theorem insufficient_data_guard:
  "(length (filter (in_groups ''Chatbot'' ''Live Agent'') d) < 2 \<longrightarrow>
      compare_groups sf d = NotEnoughData)
   \<and> (2 \<le> length (filter (in_groups ''Chatbot'' ''Live Agent'') d) \<longrightarrow>
      (\<exists>c. compare_groups sf d = Tested c \<and>
           (t_stat c, p_val c) =
             ttest_ind sf (group_scores ''Chatbot'' d) (group_scores ''Live Agent'' d)))"
  by (simp add: compare_groups_def ab_test_eq)

theorem insufficient_data_guard_witness:
  "length (filter (in_groups ''Chatbot'' ''Live Agent'') [t1, t5]) = 1
   \<and> compare_groups (\<lambda>d x. 1 / 100) [t1, t5] = NotEnoughData
   \<and> length (filter (in_groups ''Chatbot'' ''Live Agent'') [t1, t5, t2]) = 2
   \<and> (\<exists>c. compare_groups (\<lambda>d x. 1 / 100) [t1, t5, t2] = Tested c \<and> t_stat c = NaN \<and> p_val c = NaN)"
  using insufficient_data_guard[of "[t1, t5]" "\<lambda>d x. 1 / 100"]
        insufficient_data_guard[of "[t1, t5, t2]" "\<lambda>d x. 1 / 100"]
  by (auto simp add: example_defs in_groups_def group_scores_def ttest_ind_def np_var_single
        unequal_var_ttest_denom_def Let_def)

text \<open>
  C4. When the comparison reaches the test, the verdict is "significant" exactly when the
  p-value is below the constant 0.05 and "not significant" otherwise; an undefined p-value is
  not below it. The constant is not a parameter of the comparison.
\<close>

theorem verdict_iff_p_below_alpha:
  assumes "compare_groups sf d = Tested c"
  shows "(outcome c = Significant \<longleftrightarrow> f_lt (p_val c) (Fin (5 / 100)))
       \<and> (outcome c = NotSignificant \<longleftrightarrow> \<not> f_lt (p_val c) (Fin (5 / 100)))
       \<and> (\<forall>x. p_val c = Fin x \<longrightarrow> (outcome c = Significant \<longleftrightarrow> x < 5 / 100))
       \<and> (p_val c = NaN \<longrightarrow> outcome c = NotSignificant)"
proof -
  from assms have "outcome c = significance (p_val c)"
    by (auto simp: compare_groups_def ab_test_eq split: if_splits)
  then show ?thesis by (auto simp: significance_def)
qed

theorem verdict_iff_p_below_alpha_witness:
  "(\<exists>c. compare_groups (\<lambda>d x. 1 / 100) [t1, t2, t3, t6] = Tested c \<and> p_val c = Fin (2 / 100)
        \<and> outcome c = Significant)
   \<and> (\<exists>c. compare_groups (\<lambda>d x. 5 / 200) [t1, t2, t3, t6] = Tested c \<and> p_val c = Fin (5 / 100)
        \<and> outcome c = NotSignificant)
   \<and> (\<exists>c. compare_groups (\<lambda>d x. 1 / 100) [t1, t5, t2] = Tested c \<and> p_val c = NaN
        \<and> outcome c = NotSignificant)"
  using verdict_iff_p_below_alpha[OF compare_example[of "1 / 100"]]
        verdict_iff_p_below_alpha[OF compare_example[of "5 / 200"]]
        verdict_iff_p_below_alpha[OF compare_example_pair[of "\<lambda>d x. 1 / 100"]]
  by (simp add: compare_example compare_example_pair)

text \<open>
  C6. When the comparison runs the test, exchanging the two group labels negates the test
  statistic and leaves the p-value, and with it the verdict, unchanged; the two group sizes
  change places.
\<close>

theorem welch_swap_symmetry:
  assumes "compare_groups sf d = Tested c"
  shows "\<exists>c'. ab_test sf ''Live Agent'' ''Chatbot'' d = Tested c'
            \<and> t_stat c' = f_neg (t_stat c) \<and> p_val c' = p_val c \<and> outcome c' = outcome c
            \<and> size_a c' = size_b c \<and> size_b c' = size_a c"
proof -
  have g: "in_groups ''Live Agent'' ''Chatbot'' = in_groups ''Chatbot'' ''Live Agent''"
    by (auto simp: in_groups_def fun_eq_iff)
  from assms show ?thesis
    unfolding compare_groups_def ab_test_eq g
    using ttest_ind_swap[of sf "group_scores ''Live Agent'' d" "group_scores ''Chatbot'' d"]
    by (auto split: if_splits)
qed

theorem welch_swap_symmetry_witness:
  "(\<exists>c. compare_groups (\<lambda>d x. 1 / 100) [t1, t2, t3, t6] = Tested c
        \<and> t_stat c = Fin 3 \<and> p_val c = Fin (2 / 100) \<and> outcome c = Significant)
   \<and> (\<exists>c'. ab_test (\<lambda>d x. 1 / 100) ''Live Agent'' ''Chatbot'' [t1, t2, t3, t6] = Tested c'
        \<and> t_stat c' = Fin (- 3) \<and> p_val c' = Fin (2 / 100) \<and> outcome c' = Significant)"
  using welch_swap_symmetry[OF compare_example[of "1 / 100"]]
  by (auto simp: compare_example significance_def)

text \<open>
  C9. The guard looks at the combined size only: when at least two rows have one of the two
  channel labels and one of the two groups is empty, the comparison still runs the test; the
  statistic and the p-value are both undefined and the verdict is "not significant", not the
  report that there is not enough data.
\<close>

theorem one_sided_groups_reach_test:
  assumes "2 \<le> length (filter (in_groups ''Chatbot'' ''Live Agent'') d)"
      and "group_scores ''Chatbot'' d = [] \<or> group_scores ''Live Agent'' d = []"
  shows "\<exists>c. compare_groups sf d = Tested c \<and> t_stat c = NaN \<and> p_val c = NaN
              \<and> outcome c = NotSignificant"
  using assms
  by (auto simp: compare_groups_def ab_test_eq ttest_ind_empty_left ttest_ind_empty_right
        significance_def)

theorem one_sided_groups_reach_test_witness:
  "2 \<le> length (filter (in_groups ''Chatbot'' ''Live Agent'') [t1, t3, t5])
   \<and> group_scores ''Live Agent'' [t1, t3, t5] = []
   \<and> compare_groups (\<lambda>d x. 1 / 100) [t1, t3, t5] =
       Tested \<lparr>size_a = 2, size_b = 0, mean_a = Fin 4, mean_b = NaN, t_stat = NaN, p_val = NaN,
               outcome = NotSignificant\<rparr>"
proof -
  have h1: "2 \<le> length (filter (in_groups ''Chatbot'' ''Live Agent'') [t1, t3, t5])"
    by (simp add: in_groups_def example_defs)
  have h2: "group_scores ''Live Agent'' [t1, t3, t5] = []"
    by (simp add: group_scores_def example_defs)
  have h3: "group_scores ''Chatbot'' [t1, t3, t5] = [Fin 5, Fin 3]"
    by (simp add: group_scores_def example_defs)
  from one_sided_groups_reach_test[OF h1 disjI2[OF h2], of "\<lambda>d x. 1 / 100"]
  show ?thesis using h1 h2 h3
    by (auto simp: compare_groups_def ab_test_eq series_mean_def notna_def f_sum_def)
qed

subsection \<open>Threshold scan\<close>

lemma f_gt_exceeds: "f_gt x (Fin (of_int t)) = exceeds x t"
  by (cases x) (simp_all add: f_gt_def exceeds_def)

lemma anomalies_filter: "anomalies d t = filter (\<lambda>r. exceeds (Resolution_Time_Minutes r) t) d"
  by (simp add: anomalies_def gt_scalar_def f_gt_exceeds boolean_index_map comp_def)

text \<open>
  C3. The scan selects the rows whose resolution time is strictly greater than the threshold,
  so a resolution time equal to the threshold is not selected; the count written out is the
  number of all those rows, however many; the rows shown are the first 20 of them at most, in
  the order of the filtered table, each as identifier, timestamp, channel, issue type,
  response time, resolution time and score.
\<close>

theorem scan_threshold_strict:
  "anomalies d t = filter (\<lambda>r. exceeds (Resolution_Time_Minutes r) t) d
   \<and> \<not> exceeds (Fin (real_of_int t)) t
   \<and> fst (scan_threshold d t) = length (filter (\<lambda>r. exceeds (Resolution_Time_Minutes r) t) d)
   \<and> shown_rows (snd (scan_threshold d t)) =
       take 20
         (map (\<lambda>r. (Ticket_ID r, Created_At r, Channel r, Issue_Type r,
                    Response_Time_Minutes r, Resolution_Time_Minutes r, CSAT_Score r))
              (filter (\<lambda>r. exceeds (Resolution_Time_Minutes r) t) d))
   \<and> length (shown_rows (snd (scan_threshold d t))) \<le> 20"
  by (simp add: scan_threshold_def Let_def shown_rows_def anomalies_filter exceeds_def
        project_def[abs_def])

theorem scan_threshold_strict_witness:
  "anomalies [t5, t1, t2, t3] 180 = [t1, t2]
   \<and> fst (scan_threshold [t5, t1, t2, t3] 100) = 3
   \<and> shown_rows (snd (scan_threshold [t5, t1, t2, t3] 100)) =
       [(''T1'', Some (10 * ns_per_day + 3600000000000), Some ''Chatbot'', Some ''Billing'',
         Fin 5, Fin 200, Fin 5),
        (''T2'', Some (11 * ns_per_day - 1), Some ''Live Agent'', Some ''Billing'',
         Fin 5, Fin 181, Fin 1),
        (''T3'', Some (11 * ns_per_day), Some ''Chatbot'', Some ''Billing'',
         Fin 5, Fin 180, Fin 3)]
   \<and> fst (scan_threshold (replicate 25 t1 @ [t3]) 180) = 25
   \<and> shown_rows (snd (scan_threshold (replicate 25 t1 @ [t3]) 180)) =
       replicate 20
         (''T1'', Some (10 * ns_per_day + 3600000000000), Some ''Chatbot'', Some ''Billing'',
          Fin 5, Fin 200, Fin 5)"
  using scan_threshold_strict[of "[t5, t1, t2, t3]" 180]
        scan_threshold_strict[of "[t5, t1, t2, t3]" 100]
        scan_threshold_strict[of "replicate 25 t1 @ [t3]" 180]
  by (simp add: example_defs exceeds_def)

text \<open>
  C10. A row whose resolution time is missing is never selected by the scan, whatever the
  threshold, and the count written out is the count over the rows whose resolution time is
  not missing.
\<close>

theorem missing_resolution_never_selected:
  "(\<forall>r \<in> set d. Resolution_Time_Minutes r = NaN \<longrightarrow> r \<notin> set (anomalies d t))
   \<and> fst (scan_threshold d t) =
       fst (scan_threshold (filter (\<lambda>r. Resolution_Time_Minutes r \<noteq> NaN) d) t)"
  by (auto simp: scan_threshold_def Let_def anomalies_filter exceeds_def
        intro!: arg_cong[where f = length] filter_cong)

theorem missing_resolution_never_selected_witness:
  "t4 \<in> set [t4, t1, t3] \<and> Resolution_Time_Minutes t4 = NaN
   \<and> t4 \<notin> set (anomalies [t4, t1, t3] 60)
   \<and> fst (scan_threshold [t4, t1, t3] 60) = 2"
  using missing_resolution_never_selected[of "[t4, t1, t3]" 60]
  by (simp add: example_defs scan_threshold_def anomalies_filter exceeds_def)

subsection \<open>Summary metrics\<close>

text \<open>
  C5. On the empty filtered table each of the four metrics (mean satisfaction score, mean
  resolution time, mean number of tickets per calendar day, percentage of happy customers) is
  the not-a-number value. The metrics are a function of the table alone.
\<close>

theorem empty_subset_metrics:
  "compute_metrics [] =
     \<lparr>avg_csat = NaN, avg_resolution_time = NaN, tickets_per_day = NaN, happy_rate = NaN\<rparr>"
  by (simp add: compute_metrics_def series_mean_def groupby_size_def dt_date_def)

subsection \<open>Loading\<close>

lemma length_assign: "length col = length df \<Longrightarrow> length (assign_Created_At df col) = length df"
  by (simp add: assign_Created_At_def)

lemma nth_assign:
  "length col = length df \<Longrightarrow> i < length df \<Longrightarrow>
     assign_Created_At df col ! i = set_Created_At (df ! i) (col ! i)"
  by (simp add: assign_Created_At_def)

text \<open>
  C8. When the file is read, the loaded table has as many rows as were read; in each row the
  creation timestamp is the parsed text, or missing when the text does not parse or is
  missing, and every other column is unchanged. No row is dropped and nothing is raised for a
  text that does not parse.
\<close>

theorem load_data_keeps_rows:
  assumes "read_csv filename = Inr raw"
  shows "\<exists>df. load_data read_csv parse filename = Inr df
            \<and> length df = length raw
            \<and> (\<forall>i < length raw.
                 Created_At (df ! i) =
                   (case Created_At (raw ! i) of None \<Rightarrow> None | Some s \<Rightarrow> parse s)
               \<and> Ticket_ID (df ! i) = Ticket_ID (raw ! i)
               \<and> Channel (df ! i) = Channel (raw ! i)
               \<and> Issue_Type (df ! i) = Issue_Type (raw ! i)
               \<and> Response_Time_Minutes (df ! i) = Response_Time_Minutes (raw ! i)
               \<and> Resolution_Time_Minutes (df ! i) = Resolution_Time_Minutes (raw ! i)
               \<and> CSAT_Score (df ! i) = CSAT_Score (raw ! i)
               \<and> CSAT_Binary (df ! i) = CSAT_Binary (raw ! i))"
  using assms
  by (simp add: load_data_def length_assign nth_assign to_datetime_coerce_def set_Created_At_def)

theorem load_data_keeps_rows_witness:
  "load_data example_read_csv example_parse ''tickets.csv''
   = Inr [example_ticket ''T1'' (Some (10 * ns_per_day + 3600000000000)) ''Chatbot'' ''Billing'' (Fin 200) (Fin 5),
          example_ticket ''T2'' None ''Chatbot'' ''Billing'' (Fin 200) (Fin 5),
          example_ticket ''T3'' None ''Chatbot'' ''Billing'' (Fin 200) (Fin 5)]"
proof -
  have h: "example_read_csv ''tickets.csv'' =
             Inr [raw_ticket_of ''T1'' (Some ''1970-01-11 01:00:00''),
                  raw_ticket_of ''T2'' (Some ''not a date''),
                  raw_ticket_of ''T3'' None]"
    by (simp add: example_read_csv_def)
  from load_data_keeps_rows[of example_read_csv "''tickets.csv''" _ example_parse, OF h]
  show ?thesis
    by (simp add: h load_data_def assign_Created_At_def to_datetime_coerce_def set_Created_At_def
          raw_ticket_of_def example_ticket_def example_parse_def)
qed

end
